theory Spec2Isabelle
  imports Main "HOL-Library.AList"
begin

section \<open>Values, errors and the clock\<close>

text \<open>
  Cookie values are \<^verbatim>\<open>any\<close> in \<^verbatim>\<open>cookies.ts\<close>; the values that can be embedded in a
  token are JSON values. An object keeps its properties in insertion order, so it is an
  association list. A thrown exception is a value \<open>Inl (Thrown name)\<close>; an \<^verbatim>\<open>async\<close>
  function is its result. \<^verbatim>\<open>Date.now()\<close> is a parameter \<open>now\<close>, in milliseconds.
\<close>

datatype json =
    JNull
  | JBool bool
  | JNum int
  | JStr string
  | JArr "json list"
  | JObj "(string \<times> json) list"

type_synonym claims = "(string \<times> json) list"

type_synonym bytes = "nat list"

datatype error = Thrown string

definition TextEncoder_encode :: "string \<Rightarrow> bytes" where
  "TextEncoder_encode s = map of_char s"

section \<open>The jose package\<close>

text \<open>
  \<^verbatim>\<open>jose\<close> is an external package: its cryptography and its token framing are parameters
  of the model, a record of the six operations \<^verbatim>\<open>cookies.ts\<close> calls. A builder object
  (\<^verbatim>\<open>SignJWT\<close>, \<^verbatim>\<open>EncryptJWT\<close>, \<^verbatim>\<open>UnsecuredJWT\<close>) is the claims set and the protected
  header it has been given so far. \<^verbatim>\<open>jwtVerify\<close> and \<^verbatim>\<open>jwtDecrypt\<close> resolve to a result
  object with the properties \<^verbatim>\<open>payload\<close> and \<^verbatim>\<open>protectedHeader\<close>, and
  \<^verbatim>\<open>UnsecuredJWT.decode\<close> returns one with the properties \<^verbatim>\<open>payload\<close> and \<^verbatim>\<open>header\<close>.
\<close>

record jwt_builder =
  b_payload :: claims
  b_protectedHeader :: "claims option"

record jwt_result =
  payload :: claims
  protectedHeader :: claims

record unsecured_result =
  unsecured_payload :: claims
  unsecured_header :: claims

record jose =
  SignJWT_sign :: "jwt_builder \<Rightarrow> bytes \<Rightarrow> error + string"
  EncryptJWT_encrypt :: "jwt_builder \<Rightarrow> bytes \<Rightarrow> error + string"
  UnsecuredJWT_encode :: "jwt_builder \<Rightarrow> error + string"
  jwtVerify :: "string \<Rightarrow> bytes \<Rightarrow> error + jwt_result"
  jwtDecrypt :: "string \<Rightarrow> bytes \<Rightarrow> error + jwt_result"
  UnsecuredJWT_decode :: "string \<Rightarrow> error + unsecured_result"

text \<open>
  Modelled from the spec: the constructor of the three jose builders, which is not under
  src/. A value "must be representable as a JSON-like mapping/structure, since it is
  embedded as claims", and "a malformed value fails with an EncodingError".
\<close>

definition new_JWT :: "json \<Rightarrow> error + jwt_builder" where
  "new_JWT v =
     (case v of
        JObj c \<Rightarrow> Inr \<lparr>b_payload = c, b_protectedHeader = None\<rparr>
      | _ \<Rightarrow> Inl (Thrown ''TypeError''))"

definition setProtectedHeader :: "claims \<Rightarrow> jwt_builder \<Rightarrow> jwt_builder" where
  "setProtectedHeader h b = b\<lparr>b_protectedHeader := Some h\<rparr>"

text \<open>
  Modelled from the spec: \<^verbatim>\<open>setIssuedAt()\<close> of the jose builders, which is not under src/:
  the token carries "an issued-at timestamp claim set to current time". The claim is
  \<^verbatim>\<open>iat\<close>, in whole seconds; an \<^verbatim>\<open>iat\<close> already in the claims set is overwritten in
  place, a new one is appended.
\<close>

definition setIssuedAt :: "int \<Rightarrow> jwt_builder \<Rightarrow> jwt_builder" where
  "setIssuedAt now b =
     b\<lparr>b_payload := AList.update ''iat'' (JNum (now div 1000)) (b_payload b)\<rparr>"

text \<open>
  The calls made to the token codec, in the order they are made. The last three are the
  readers called with a value that is not a string (see \<^verbatim>\<open>parse\<close>).
\<close>

datatype call =
    Sign jwt_builder bytes
  | Encrypt jwt_builder bytes
  | Encode jwt_builder
  | Verify string bytes
  | Decrypt string bytes
  | Decode string
  | VerifyInherited bytes
  | DecryptInherited bytes
  | DecodeInherited

definition result_object :: "unsecured_result \<Rightarrow> json" where
  "result_object r =
     JObj [(''payload'', JObj (unsecured_payload r)), (''header'', JObj (unsecured_header r))]"

section \<open>encodeCookieValue and decodeCookieValue\<close>

definition protected_header :: claims where
  "protected_header = [(''alg'', JStr ''PBES2-HS512+A256KW''), (''enc'', JStr ''A256GCM'')]"

definition encodeCookieValue ::
  "jose \<Rightarrow> int \<Rightarrow> json \<Rightarrow> string list \<Rightarrow> bool \<Rightarrow> call list \<times> (error + string)" where
  "encodeCookieValue L now v secrets encrypt =
     (if length secrets > 0 then
        (if encrypt then
           (case new_JWT v of
              Inl e \<Rightarrow> ([], Inl e)
            | Inr b \<Rightarrow>
                let b' = setIssuedAt now (setProtectedHeader protected_header b);
                    k = TextEncoder_encode (secrets ! 0)
                in ([Encrypt b' k], EncryptJWT_encrypt L b' k))
         else
           (case new_JWT v of
              Inl e \<Rightarrow> ([], Inl e)
            | Inr b \<Rightarrow>
                let b' = setIssuedAt now (setProtectedHeader protected_header b);
                    k = TextEncoder_encode (secrets ! 0)
                in ([Sign b' k], SignJWT_sign L b' k)))
      else
        (case new_JWT v of
           Inl e \<Rightarrow> ([], Inl e)
         | Inr b \<Rightarrow>
             let b' = setIssuedAt now b
             in ([Encode b'], UnsecuredJWT_encode L b')))"

text \<open>
  The \<^verbatim>\<open>for (let secret of secrets)\<close> loop of \<^verbatim>\<open>decodeCookieValue\<close>: \<open>Some\<close> is the
  \<^verbatim>\<open>return unsignedValue\<close> inside a \<^verbatim>\<open>try\<close>, \<open>None\<close> is falling out of the loop. The empty
  \<^verbatim>\<open>catch (e) {}\<close> drops the error and goes on to the next secret.
\<close>

fun try_secrets :: "jose \<Rightarrow> string \<Rightarrow> bool \<Rightarrow> string list \<Rightarrow> call list \<times> json option" where
  "try_secrets L v decrypt [] = ([], None)"
| "try_secrets L v decrypt (secret # rest) =
     (if decrypt then
        (case jwtDecrypt L v (TextEncoder_encode secret) of
           Inr r \<Rightarrow> ([Decrypt v (TextEncoder_encode secret)], Some (JObj (payload r)))
         | Inl e \<Rightarrow>
             (case try_secrets L v decrypt rest of
                (cs, res) \<Rightarrow> (Decrypt v (TextEncoder_encode secret) # cs, res)))
      else
        (case jwtVerify L v (TextEncoder_encode secret) of
           Inr r \<Rightarrow> ([Verify v (TextEncoder_encode secret)], Some (JObj (payload r)))
         | Inl e \<Rightarrow>
             (case try_secrets L v decrypt rest of
                (cs, res) \<Rightarrow> (Verify v (TextEncoder_encode secret) # cs, res))))"

definition decodeCookieValue ::
  "jose \<Rightarrow> string \<Rightarrow> string list \<Rightarrow> bool \<Rightarrow> call list \<times> (error + json)" where
  "decodeCookieValue L v secrets decrypt =
     (if length secrets > 0 then
        (case try_secrets L v decrypt secrets of
           (cs, Some unsignedValue) \<Rightarrow> (cs, Inr unsignedValue)
         | (cs, None) \<Rightarrow> (cs @ [Decode v], map_sum id result_object (UnsecuredJWT_decode L v)))
      else ([Decode v], map_sum id result_object (UnsecuredJWT_decode L v)))"

text \<open>
  \<^verbatim>\<open>decodeCookieValue\<close> when \<^verbatim>\<open>cookies[name]\<close> is a member inherited from
  \<^verbatim>\<open>Object.prototype\<close>, so a function or an object where the signature says \<^verbatim>\<open>string\<close>.
  The three readers of jose throw on a token that is not a string: each pass of the loop
  throws and is dropped, and \<^verbatim>\<open>UnsecuredJWT.decode\<close> throws to the caller.
\<close>

definition decodeCookieValue_inherited :: "string list \<Rightarrow> bool \<Rightarrow> call list \<times> (error + json)" where
  "decodeCookieValue_inherited secrets decrypt =
     (map (\<lambda>secret.
             if decrypt then DecryptInherited (TextEncoder_encode secret)
             else VerifyInherited (TextEncoder_encode secret)) secrets
        @ [DecodeInherited],
      Inl (Thrown ''JWTInvalid''))"

section \<open>The cookie package and the cookie options\<close>

text \<open>
  \<^verbatim>\<open>parse\<close> and \<^verbatim>\<open>serialize\<close> of the external \<^verbatim>\<open>cookie\<close> package are parameters as well.
  An options object is a record of attributes. A property of an object is \<open>Missing\<close>, or
  \<open>Present\<close> with a value, or \<open>Present None\<close> when it is there and set to \<^verbatim>\<open>undefined\<close>;
  reading it gives \<^verbatim>\<open>undefined\<close> (\<open>None\<close>) in the first and the last case.
\<close>

datatype 'a property = Missing | Present "'a option"

definition value_of :: "'a property \<Rightarrow> 'a option" where
  "value_of p = (case p of Missing \<Rightarrow> None | Present v \<Rightarrow> v)"

text \<open>
  A number is a whole number, \<^verbatim>\<open>NaN\<close> or an infinity; fractions, where the rounding of
  doubles decides the result, are outside the model. \<^verbatim>\<open>Date.now()\<close> is a whole number of
  milliseconds. A \<^verbatim>\<open>Date\<close> is its time value if that lies within 8.64e15 ms of the epoch,
  and an Invalid Date otherwise: \<^verbatim>\<open>new Date(t)\<close> clips the time value.
\<close>

datatype js_number = Whole int | NaN | PosInfinity | NegInfinity

datatype js_date = ValidDate int | InvalidDate

fun times_1000 :: "js_number \<Rightarrow> js_number" where
  "times_1000 (Whole n) = Whole (n * 1000)"
| "times_1000 NaN = NaN"
| "times_1000 PosInfinity = PosInfinity"
| "times_1000 NegInfinity = NegInfinity"

fun plus_number :: "int \<Rightarrow> js_number \<Rightarrow> js_number" where
  "plus_number a (Whole n) = Whole (a + n)"
| "plus_number a NaN = NaN"
| "plus_number a PosInfinity = PosInfinity"
| "plus_number a NegInfinity = NegInfinity"

fun new_Date :: "js_number \<Rightarrow> js_date" where
  "new_Date (Whole t) = (if \<bar>t\<bar> \<le> 8640000000000000 then ValidDate t else InvalidDate)"
| "new_Date NaN = InvalidDate"
| "new_Date PosInfinity = InvalidDate"
| "new_Date NegInfinity = InvalidDate"

datatype same_site = SameSiteBool bool | Lax | Strict | NoneSite

record cookie_attrs =
  opt_domain :: "string property"
  opt_expires :: "js_date property"
  opt_httpOnly :: "bool property"
  opt_maxAge :: "js_number property"
  opt_path :: "string property"
  opt_sameSite :: "same_site property"
  opt_secure :: "bool property"

record CookieOptions =
  attrs :: cookie_attrs
  secrets :: "string list property"
  encrypt :: "bool property"

text \<open>
  \<^verbatim>\<open>cookie_parse\<close> gives the own properties of the object that \<^verbatim>\<open>parse\<close> of the package
  returns. That object is a plain object: besides its own properties it has the members
  it inherits from \<^verbatim>\<open>Object.prototype\<close>, which are functions or objects and never strings.
  The operator \<^verbatim>\<open>in\<close> follows the prototype chain.
\<close>

record cookie_pkg =
  cookie_parse :: "string \<Rightarrow> cookie_attrs \<Rightarrow> (string \<rightharpoonup> string)"
  cookie_serialize :: "string \<Rightarrow> string \<Rightarrow> cookie_attrs \<Rightarrow> error + string"

definition Object_prototype :: "string list" where
  "Object_prototype =
     [''constructor'', ''__defineGetter__'', ''__defineSetter__'', ''hasOwnProperty'',
      ''__lookupGetter__'', ''__lookupSetter__'', ''isPrototypeOf'', ''propertyIsEnumerable'',
      ''toString'', ''valueOf'', ''__proto__'', ''toLocaleString'']"

definition name_in :: "string \<Rightarrow> (string \<rightharpoonup> string) \<Rightarrow> bool" where
  "name_in n cookies \<longleftrightarrow> cookies n \<noteq> None \<or> n \<in> set Object_prototype"

definition override :: "'a property \<Rightarrow> 'a property \<Rightarrow> 'a property" where
  "override a b = (case b of Missing \<Rightarrow> a | Present v \<Rightarrow> Present v)"

text \<open>
  The object spread \<^verbatim>\<open>{ ...a, ...b }\<close>: a property of \<open>b\<close> wins, also when it is set to
  \<^verbatim>\<open>undefined\<close>.
\<close>

definition spread :: "cookie_attrs \<Rightarrow> cookie_attrs \<Rightarrow> cookie_attrs" where
  "spread a b =
     \<lparr>opt_domain = override (opt_domain a) (opt_domain b),
      opt_expires = override (opt_expires a) (opt_expires b),
      opt_httpOnly = override (opt_httpOnly a) (opt_httpOnly b),
      opt_maxAge = override (opt_maxAge a) (opt_maxAge b),
      opt_path = override (opt_path a) (opt_path b),
      opt_sameSite = override (opt_sameSite a) (opt_sameSite b),
      opt_secure = override (opt_secure a) (opt_secure b)\<rparr>"

definition no_attrs :: cookie_attrs where
  "no_attrs =
     \<lparr>opt_domain = Missing, opt_expires = Missing, opt_httpOnly = Missing,
      opt_maxAge = Missing, opt_path = Missing, opt_sameSite = Missing,
      opt_secure = Missing\<rparr>"

definition default_attrs :: cookie_attrs where
  "default_attrs =
     no_attrs\<lparr>opt_path := Present (Some ''/''), opt_sameSite := Present (Some Lax)\<rparr>"

section \<open>Warnings\<close>

text \<open>
  Modelled from the spec: \<^verbatim>\<open>warnOnce\<close> of \<^verbatim>\<open>./warnings\<close>, which is not under src/: "emit a
  diagnostic at most once per distinct message across the process lifetime". The state is
  the list of the messages emitted so far.
\<close>

definition warnOnce :: "bool \<Rightarrow> string \<Rightarrow> string list \<Rightarrow> string list" where
  "warnOnce condition message warned =
     (if \<not> condition \<and> message \<notin> set warned then warned @ [message] else warned)"

definition warnOnceAboutExpiresCookie ::
  "string \<Rightarrow> js_date option \<Rightarrow> string list \<Rightarrow> string list" where
  "warnOnceAboutExpiresCookie name expires warned =
     warnOnce (expires = None)
       (''The '' @ [CHR 0x22] @ name @ [CHR 0x22] @ '' cookie has an '' @ [CHR 0x22] @ ''expires''
          @ [CHR 0x22] @ '' property set. ''
        @ ''This will cause the expires value to not be updated when the session is committed. ''
        @ ''Instead, you should set the expires value when serializing the cookie. ''
        @ ''You can use `commitSession(session, { expires })` if using a session storage object, ''
        @ ''or `cookie.serialize('' @ [CHR 0x22] @ ''value'' @ [CHR 0x22]
        @ '', { expires })` if you're using the cookie directly.'')
       warned"

section \<open>createCookieFactory\<close>

text \<open>
  The object returned by \<^verbatim>\<open>createCookieFactory()(name, cookieOptions)\<close> is a closure over
  \<^verbatim>\<open>name\<close>, \<^verbatim>\<open>secrets\<close>, \<^verbatim>\<open>encrypt\<close> and \<^verbatim>\<open>options\<close>; the record holds the four captured
  variables, and each getter and method is a function of it.
\<close>

record Cookie =
  cap_name :: string
  cap_secrets :: "string list"
  cap_encrypt :: bool
  cap_options :: cookie_attrs

definition createCookieFactory ::
  "string \<Rightarrow> CookieOptions \<Rightarrow> string list \<Rightarrow> Cookie \<times> string list" where
  "createCookieFactory name cookieOptions warned =
     (let secrets = (case value_of (secrets cookieOptions) of None \<Rightarrow> [] | Some s \<Rightarrow> s);
          encrypt = (case value_of (encrypt cookieOptions) of None \<Rightarrow> False | Some e \<Rightarrow> e);
          options = spread default_attrs (attrs cookieOptions)
      in (\<lparr>cap_name = name, cap_secrets = secrets, cap_encrypt = encrypt, cap_options = options\<rparr>,
          warnOnceAboutExpiresCookie name (value_of (opt_expires options)) warned))"

definition name :: "Cookie \<Rightarrow> string" where
  "name c = cap_name c"

definition isSigned :: "Cookie \<Rightarrow> bool" where
  "isSigned c = (length (cap_secrets c) > 0)"

definition expires :: "int \<Rightarrow> Cookie \<Rightarrow> js_date option" where
  "expires now c =
     (case value_of (opt_maxAge (cap_options c)) of
        Some maxAge \<Rightarrow> Some (new_Date (plus_number now (times_1000 maxAge)))
      | None \<Rightarrow> value_of (opt_expires (cap_options c)))"

definition parse ::
  "jose \<Rightarrow> cookie_pkg \<Rightarrow> Cookie \<Rightarrow> string option \<Rightarrow> cookie_attrs \<Rightarrow> call list \<times> (error + json)" where
  "parse L C c cookieHeader parseOptions =
     (case cookieHeader of
        None \<Rightarrow> ([], Inr JNull)
      | Some h \<Rightarrow>
          if h = [] then ([], Inr JNull)
          else
            let cookies = cookie_parse C h (spread (cap_options c) parseOptions)
            in if name_in (cap_name c) cookies then
                 (case cookies (cap_name c) of
                    Some raw \<Rightarrow>
                      if raw = [] then ([], Inr (JStr []))
                      else decodeCookieValue L raw (cap_secrets c) (cap_encrypt c)
                  | None \<Rightarrow> decodeCookieValue_inherited (cap_secrets c) (cap_encrypt c))
               else ([], Inr JNull))"

definition serialize ::
  "jose \<Rightarrow> cookie_pkg \<Rightarrow> int \<Rightarrow> Cookie \<Rightarrow> json \<Rightarrow> cookie_attrs \<Rightarrow> call list \<times> (error + string)" where
  "serialize L C now c v serializeOptions =
     (if v = JStr [] then
        ([], cookie_serialize C (cap_name c) [] (spread (cap_options c) serializeOptions))
      else
        (case encodeCookieValue L now v (cap_secrets c) (cap_encrypt c) of
           (cs, Inl e) \<Rightarrow> (cs, Inl e)
         | (cs, Inr encoded) \<Rightarrow>
             (cs, cookie_serialize C (cap_name c) encoded
                    (spread (cap_options c) serializeOptions))))"

section \<open>isCookie\<close>

text \<open>
  \<^verbatim>\<open>isCookie\<close> takes \<^verbatim>\<open>any\<close> and looks only at \<^verbatim>\<open>typeof\<close> of four properties. A value is
  \<^verbatim>\<open>undefined\<close>, \<^verbatim>\<open>null\<close>, a primitive, a function or an object with its properties;
  reading a property that is not there gives \<^verbatim>\<open>undefined\<close>.
\<close>

datatype js_value =
    Undefined
  | Null
  | Boolean bool
  | Number int
  | String string
  | DateObject js_date
  | Function
  | Object "(string \<times> js_value) list"

fun typeof :: "js_value \<Rightarrow> string" where
  "typeof Undefined = ''undefined''"
| "typeof Null = ''object''"
| "typeof (Boolean b) = ''boolean''"
| "typeof (Number n) = ''number''"
| "typeof (String s) = ''string''"
| "typeof (DateObject d) = ''object''"
| "typeof Function = ''function''"
| "typeof (Object ps) = ''object''"

fun get_property :: "js_value \<Rightarrow> string \<Rightarrow> js_value" where
  "get_property (Object ps) p = (case map_of ps p of None \<Rightarrow> Undefined | Some x \<Rightarrow> x)"
| "get_property _ p = Undefined"

definition isCookie :: "js_value \<Rightarrow> bool" where
  "isCookie object =
     (object \<noteq> Null \<and> object \<noteq> Undefined \<and>
      typeof (get_property object ''name'') = ''string'' \<and>
      typeof (get_property object ''isSigned'') = ''boolean'' \<and>
      typeof (get_property object ''parse'') = ''function'' \<and>
      typeof (get_property object ''serialize'') = ''function'')"

text \<open>The descriptor as \<^verbatim>\<open>isCookie\<close> sees it: the value each property access gives.\<close>

definition cookie_object :: "int \<Rightarrow> Cookie \<Rightarrow> js_value" where
  "cookie_object now c =
     Object
       [(''name'', String (name c)),
        (''isSigned'', Boolean (isSigned c)),
        (''expires'', (case expires now c of None \<Rightarrow> Undefined | Some d \<Rightarrow> DateObject d)),
        (''parse'', Function),
        (''serialize'', Function)]"

section \<open>What the token codec is expected to do\<close>

text \<open>
  One pass of the loop of \<^verbatim>\<open>decodeCookieValue\<close> calls \<^verbatim>\<open>jwtDecrypt\<close> or \<^verbatim>\<open>jwtVerify\<close>
  with the encoded secret.
\<close>

definition attempt :: "jose \<Rightarrow> bool \<Rightarrow> string \<Rightarrow> string \<Rightarrow> error + jwt_result" where
  "attempt L decrypt v secret =
     (if decrypt then jwtDecrypt L v (TextEncoder_encode secret)
      else jwtVerify L v (TextEncoder_encode secret))"

definition attempt_call :: "bool \<Rightarrow> string \<Rightarrow> string \<Rightarrow> call" where
  "attempt_call decrypt v secret =
     (if decrypt then Decrypt v (TextEncoder_encode secret)
      else Verify v (TextEncoder_encode secret))"

text \<open>
  The contract of the package, as far as a round trip needs it: a token that the package
  produced is accepted under the same key (or, unsecured, with no key), and the claims
  read from it are the claims that were written.
\<close>

definition verify_inverts_sign :: "jose \<Rightarrow> bool" where
  "verify_inverts_sign L \<longleftrightarrow>
     (\<forall>b k t. SignJWT_sign L b k = Inr t \<longrightarrow>
        (\<exists>r. jwtVerify L t k = Inr r \<and> payload r = b_payload b))"

definition decode_inverts_encode :: "jose \<Rightarrow> bool" where
  "decode_inverts_encode L \<longleftrightarrow>
     (\<forall>b t. UnsecuredJWT_encode L b = Inr t \<longrightarrow>
        (\<exists>r. UnsecuredJWT_decode L t = Inr r \<and> unsecured_payload r = b_payload b))"

section \<open>A codebook instance of the two packages\<close>

text \<open>
  To run the functions on concrete inputs the packages are instantiated by a test double:
  a finite codebook that lists each token with its kind, its key and the builder it was
  made from. Producing a token looks the builder up, reading one looks the token up and
  compares kind and key; everything else throws.
\<close>

datatype kind = Signed | Encrypted | Unsecured

type_synonym codebook = "(string \<times> kind \<times> bytes \<times> jwt_builder) list"

definition produce :: "codebook \<Rightarrow> kind \<Rightarrow> bytes \<Rightarrow> jwt_builder \<Rightarrow> error + string" where
  "produce cb kd k b =
     (case find (\<lambda>(t, e). e = (kd, k, b)) cb of
        Some (t, e) \<Rightarrow> Inr t
      | None \<Rightarrow> Inl (Thrown ''JOSENotSupported''))"

definition header_of :: "jwt_builder \<Rightarrow> claims" where
  "header_of b = (case b_protectedHeader b of None \<Rightarrow> [] | Some h \<Rightarrow> h)"

definition consume :: "codebook \<Rightarrow> kind \<Rightarrow> bytes \<Rightarrow> string \<Rightarrow> error + jwt_result" where
  "consume cb kd k t =
     (case map_of cb t of
        None \<Rightarrow> Inl (Thrown ''JWTInvalid'')
      | Some (kd', k', b) \<Rightarrow>
          if kd' \<noteq> kd then Inl (Thrown ''JWTInvalid'')
          else if k' \<noteq> k then Inl (Thrown ''VerificationFailed'')
          else Inr \<lparr>payload = b_payload b, protectedHeader = header_of b\<rparr>)"

definition codebook_jose :: "codebook \<Rightarrow> jose" where
  "codebook_jose cb =
     \<lparr>SignJWT_sign = (\<lambda>b k. produce cb Signed k b),
      EncryptJWT_encrypt = (\<lambda>b k. produce cb Encrypted k b),
      UnsecuredJWT_encode = (\<lambda>b. produce cb Unsecured [] b),
      jwtVerify = (\<lambda>t k. consume cb Signed k t),
      jwtDecrypt = (\<lambda>t k. consume cb Encrypted k t),
      UnsecuredJWT_decode = (\<lambda>t.
        map_sum id
          (\<lambda>r. \<lparr>unsecured_payload = payload r,
                unsecured_header = [(''alg'', JStr ''none'')]\<rparr>)
          (consume cb Unsecured [] t))\<rparr>"

definition uid_claims :: claims where
  "uid_claims = [(''uid'', JNum 42)]"

definition issued_claims :: claims where
  "issued_claims = [(''uid'', JNum 42), (''iat'', JNum 1000)]"

definition unsecured_token :: string where
  "unsecured_token = ''eyJhbGciOiJub25lIn0.eyJ1aWQiOjQyLCJpYXQiOjEwMDB9.''"

definition signed_token :: string where
  "signed_token = ''eyJhbGciOiJQQkVTMiJ9.eyJ1aWQiOjQyLCJpYXQiOjEwMDB9.c2lnLXMx''"

definition encrypted_token :: string where
  "encrypted_token = ''eyJhbGciOiJQQkVTMiJ9.a2V5.aXY.Y2lwaGVy.dGFn''"

definition demo_codebook :: codebook where
  "demo_codebook =
     [(unsecured_token, Unsecured, [],
         \<lparr>b_payload = issued_claims, b_protectedHeader = None\<rparr>),
      (signed_token, Signed, TextEncoder_encode ''s1'',
         \<lparr>b_payload = issued_claims, b_protectedHeader = Some protected_header\<rparr>),
      (encrypted_token, Encrypted, TextEncoder_encode ''s1'',
         \<lparr>b_payload = issued_claims, b_protectedHeader = Some protected_header\<rparr>)]"

definition demo_jose :: jose where
  "demo_jose = codebook_jose demo_codebook"

text \<open>
  The cookie package of the examples reads a header that holds one \<^verbatim>\<open>name=value\<close> pair and
  writes the pair followed by the path.
\<close>

definition demo_cookie_parse :: "string \<Rightarrow> cookie_attrs \<Rightarrow> (string \<rightharpoonup> string)" where
  "demo_cookie_parse h opts =
     (if CHR ''='' \<in> set h
      then [takeWhile (\<lambda>ch. ch \<noteq> CHR ''='') h \<mapsto> tl (dropWhile (\<lambda>ch. ch \<noteq> CHR ''='') h)]
      else Map.empty)"

definition demo_cookie_serialize :: "string \<Rightarrow> string \<Rightarrow> cookie_attrs \<Rightarrow> error + string" where
  "demo_cookie_serialize n v opts =
     (if n = [] then Inl (Thrown ''TypeError'')
      else Inr (n @ ''='' @ v @
                (case value_of (opt_path opts) of None \<Rightarrow> [] | Some p \<Rightarrow> ''; Path='' @ p)))"

definition demo_cookie :: cookie_pkg where
  "demo_cookie = \<lparr>cookie_parse = demo_cookie_parse, cookie_serialize = demo_cookie_serialize\<rparr>"

definition session_options :: CookieOptions where
  "session_options =
     \<lparr>attrs = no_attrs, secrets = Present (Some [''s1'']), encrypt = Missing\<rparr>"

definition rolling_options :: CookieOptions where
  "rolling_options =
     \<lparr>attrs = no_attrs\<lparr>opt_maxAge := Present (Some (Whole 3600)),
                       opt_expires := Present (Some (ValidDate 5))\<rparr>,
      secrets = Missing, encrypt = Missing\<rparr>"

definition fixed_options :: CookieOptions where
  "fixed_options =
     \<lparr>attrs = no_attrs\<lparr>opt_expires := Present (Some (ValidDate 5))\<rparr>,
      secrets = Missing, encrypt = Missing\<rparr>"

definition far_options :: CookieOptions where
  "far_options =
     \<lparr>attrs = no_attrs\<lparr>opt_maxAge := Present (Some (Whole 8640000000000))\<rparr>,
      secrets = Missing, encrypt = Missing\<rparr>"

definition nan_options :: CookieOptions where
  "nan_options =
     \<lparr>attrs = no_attrs\<lparr>opt_maxAge := Present (Some NaN)\<rparr>,
      secrets = Missing, encrypt = Missing\<rparr>"

section \<open>The loop over the secrets\<close>

lemma try_secrets_first_success:
  "\<forall>x\<in>set xs. isl (attempt L d v x) \<Longrightarrow> attempt L d v s = Inr r \<Longrightarrow>
   try_secrets L v d (xs @ s # ys) = (map (attempt_call d v) (xs @ [s]), Some (JObj (payload r)))"
proof (induction xs)
  case Nil
  then show ?case by (cases d) (simp_all add: attempt_def attempt_call_def)
next
  case (Cons x xs)
  from Cons.prems(1) obtain e where e: "attempt L d v x = Inl e"
    by (cases "attempt L d v x") auto
  from Cons have ih: "try_secrets L v d (xs @ s # ys) =
      (map (attempt_call d v) (xs @ [s]), Some (JObj (payload r)))" by simp
  from e ih show ?case
    by (cases d) (simp_all add: attempt_def attempt_call_def)
qed

lemma try_secrets_all_fail:
  "\<forall>x\<in>set xs. isl (attempt L d v x) \<Longrightarrow>
   try_secrets L v d xs = (map (attempt_call d v) xs, None)"
proof (induction xs)
  case Nil
  then show ?case by simp
next
  case (Cons x xs)
  from Cons.prems obtain e where e: "attempt L d v x = Inl e"
    by (cases "attempt L d v x") auto
  from Cons have ih: "try_secrets L v d xs = (map (attempt_call d v) xs, None)" by simp
  from e ih show ?case
    by (cases d) (simp_all add: attempt_def attempt_call_def)
qed

lemma try_secrets_None:
  "snd (try_secrets L v d xs) = None \<Longrightarrow> \<forall>x\<in>set xs. isl (attempt L d v x)"
  by (induction xs) (auto simp: attempt_def split: if_splits sum.splits prod.splits)

lemma produce_consume:
  assumes "distinct (map fst cb)" and "produce cb kd k b = Inr t"
  shows "consume cb kd k t = Inr \<lparr>payload = b_payload b, protectedHeader = header_of b\<rparr>"
proof -
  from assms(2) obtain e where f: "find (\<lambda>(t, e). e = (kd, k, b)) cb = Some (t, e)"
    by (auto simp: produce_def split: option.splits)
  then have "(t, e) \<in> set cb" and "e = (kd, k, b)"
    by (auto simp: find_Some_iff in_set_conv_nth)
  with assms(1) have "map_of cb t = Some (kd, k, b)" by simp
  then show ?thesis by (simp add: consume_def)
qed

lemma codebook_verify_inverts_sign:
  "distinct (map fst cb) \<Longrightarrow> verify_inverts_sign (codebook_jose cb)"
  by (simp add: verify_inverts_sign_def codebook_jose_def produce_consume)

lemma codebook_decode_inverts_encode:
  "distinct (map fst cb) \<Longrightarrow> decode_inverts_encode (codebook_jose cb)"
  by (simp add: decode_inverts_encode_def codebook_jose_def produce_consume)

lemma demo_codebook_distinct: "distinct (map fst demo_codebook)"
  by (simp add: demo_codebook_def unsecured_token_def signed_token_def encrypted_token_def)

lemma encode_secured_success:
  assumes "snd (encodeCookieValue L now v (s # S) m) = Inr token"
  shows "\<exists>V. v = JObj V \<and>
           (if m then EncryptJWT_encrypt L else SignJWT_sign L)
             \<lparr>b_payload = AList.update ''iat'' (JNum (now div 1000)) V,
              b_protectedHeader = Some protected_header\<rparr>
             (TextEncoder_encode s) = Inr token"
  using assms
  by (cases v)
    (simp_all add: encodeCookieValue_def new_JWT_def setIssuedAt_def setProtectedHeader_def
      Let_def split: if_splits)

lemma encode_unsecured_success:
  assumes "snd (encodeCookieValue L now v [] m) = Inr token"
  shows "\<exists>V. v = JObj V \<and>
           UnsecuredJWT_encode L
             \<lparr>b_payload = AList.update ''iat'' (JNum (now div 1000)) V,
              b_protectedHeader = None\<rparr> = Inr token"
  using assms
  by (cases v)
    (simp_all add: encodeCookieValue_def new_JWT_def setIssuedAt_def Let_def)

lemma decode_first_success:
  assumes "\<forall>x\<in>set xs. isl (attempt L d v x)" and "attempt L d v s = Inr r"
  shows "decodeCookieValue L v (xs @ s # ys) d =
           (map (attempt_call d v) (xs @ [s]), Inr (JObj (payload r)))"
  using try_secrets_first_success [OF assms, of ys]
  by (simp add: decodeCookieValue_def)

lemma decode_all_fail:
  assumes "\<forall>x\<in>set xs. isl (attempt L d v x)"
  shows "decodeCookieValue L v xs d =
           (map (attempt_call d v) xs @ [Decode v],
            map_sum id result_object (UnsecuredJWT_decode L v))"
  using try_secrets_all_fail [OF assms]
  by (cases xs) (simp_all add: decodeCookieValue_def)

lemma update_other_keys: "k \<noteq> k' \<Longrightarrow> map_of (AList.update k' x al) k = map_of al k"
  by (simp add: update_conv')

lemma verify_own_token:
  "verify_inverts_sign L \<Longrightarrow> SignJWT_sign L b k = Inr t \<Longrightarrow>
   \<exists>r. jwtVerify L t k = Inr r \<and> payload r = b_payload b"
  by (simp add: verify_inverts_sign_def)

lemma decode_own_token:
  "decode_inverts_encode L \<Longrightarrow> UnsecuredJWT_encode L b = Inr t \<Longrightarrow>
   \<exists>r. UnsecuredJWT_decode L t = Inr r \<and> unsecured_payload r = b_payload b"
  by (simp add: decode_inverts_encode_def)

text \<open>
  \<^verbatim>\<open>decodeCookieValue\<close> throws only when every attempt with a secret has thrown (or there
  is no secret) and \<^verbatim>\<open>UnsecuredJWT.decode\<close> throws; the error is the one of the unsecured
  decoder.
\<close>

lemma decode_error_only_from_fallback:
  "snd (decodeCookieValue L v S d) = Inl e \<longleftrightarrow>
     (\<forall>s\<in>set S. isl (attempt L d v s)) \<and> UnsecuredJWT_decode L v = Inl e"
proof
  assume a: "snd (decodeCookieValue L v S d) = Inl e"
  have "snd (try_secrets L v d S) = None"
  proof (rule ccontr)
    assume "snd (try_secrets L v d S) \<noteq> None"
    then obtain cs x where "try_secrets L v d S = (cs, Some x)"
      by (cases "try_secrets L v d S") auto
    then have "S \<noteq> []" and "snd (decodeCookieValue L v S d) = Inr x"
      by (auto simp: decodeCookieValue_def)
    with a show False by simp
  qed
  then have f: "\<forall>s\<in>set S. isl (attempt L d v s)" by (rule try_secrets_None)
  from a decode_all_fail [OF f] have "UnsecuredJWT_decode L v = Inl e"
    by (cases "UnsecuredJWT_decode L v") simp_all
  with f show "(\<forall>s\<in>set S. isl (attempt L d v s)) \<and> UnsecuredJWT_decode L v = Inl e" by simp
next
  assume "(\<forall>s\<in>set S. isl (attempt L d v s)) \<and> UnsecuredJWT_decode L v = Inl e"
  then show "snd (decodeCookieValue L v S d) = Inl e"
    by (simp add: decode_all_fail)
qed

section \<open>The codebook instance satisfies the contract\<close>

lemma demo_verify_inverts_sign: "verify_inverts_sign demo_jose"
  unfolding demo_jose_def by (rule codebook_verify_inverts_sign) (rule demo_codebook_distinct)

lemma demo_decode_inverts_encode: "decode_inverts_encode demo_jose"
  unfolding demo_jose_def by (rule codebook_decode_inverts_encode) (rule demo_codebook_distinct)

lemmas demo_defs =
  demo_jose_def codebook_jose_def demo_codebook_def produce_def consume_def header_of_def
  unsecured_token_def signed_token_def encrypted_token_def issued_claims_def uid_claims_def
  protected_header_def TextEncoder_encode_def

lemma demo_encode_signed:
  "encodeCookieValue demo_jose 1000000 (JObj uid_claims) [''s1''] False =
     ([Sign \<lparr>b_payload = issued_claims, b_protectedHeader = Some protected_header\<rparr>
         (TextEncoder_encode ''s1'')],
      Inr signed_token)"
  by (simp add: encodeCookieValue_def new_JWT_def setIssuedAt_def setProtectedHeader_def Let_def
      demo_defs)

lemma demo_encode_encrypted:
  "encodeCookieValue demo_jose 1000000 (JObj uid_claims) [''s1''] True =
     ([Encrypt \<lparr>b_payload = issued_claims, b_protectedHeader = Some protected_header\<rparr>
         (TextEncoder_encode ''s1'')],
      Inr encrypted_token)"
  by (simp add: encodeCookieValue_def new_JWT_def setIssuedAt_def setProtectedHeader_def Let_def
      demo_defs)

lemma demo_attempt_s2: "attempt demo_jose False signed_token ''s2'' = Inl (Thrown ''VerificationFailed'')"
  by (simp add: attempt_def demo_defs)

lemma demo_attempt_s1:
  "attempt demo_jose False signed_token ''s1'' =
     Inr \<lparr>payload = issued_claims, protectedHeader = protected_header\<rparr>"
  by (simp add: attempt_def demo_defs)

section \<open>Round trip with secrets\<close>

text \<open>
  C1, as the code has it, in encrypt mode: for every value and every non-empty secret list,
  if \<^verbatim>\<open>encodeCookieValue\<close> returns a token and \<^verbatim>\<open>jwtDecrypt\<close> of that token under the
  key of the call reads back the claims of the builder that was encrypted, then the value is
  a claims object \<open>V\<close>, the builder holds \<open>V\<close> with its \<^verbatim>\<open>iat\<close> claim set to the time of
  encoding in seconds, the key is the first secret, and \<^verbatim>\<open>decodeCookieValue\<close> of the token
  with the same secrets makes one attempt, with the first secret, and returns \<open>V\<close> with that
  \<^verbatim>\<open>iat\<close> claim. The result agrees with \<open>V\<close> on every claim other than \<^verbatim>\<open>iat\<close>. Nothing
  is said of sign mode.
\<close>

theorem roundtrip_adds_iat:
  assumes "encodeCookieValue L now v (s # S) True = ([Encrypt b k], Inr token)"
    and "jwtDecrypt L token k = Inr r"
    and "payload r = b_payload b"
  shows "\<exists>V. v = JObj V \<and>
           k = TextEncoder_encode s \<and>
           b_payload b = AList.update ''iat'' (JNum (now div 1000)) V \<and>
           decodeCookieValue L token (s # S) True =
             ([Decrypt token (TextEncoder_encode s)],
              Inr (JObj (AList.update ''iat'' (JNum (now div 1000)) V))) \<and>
           (\<forall>c. c \<noteq> ''iat'' \<longrightarrow>
              map_of (AList.update ''iat'' (JNum (now div 1000)) V) c = map_of V c)"
proof -
  from assms(1) obtain V where
    v: "v = JObj V" and
    k: "k = TextEncoder_encode s" and
    b: "b_payload b = AList.update ''iat'' (JNum (now div 1000)) V"
    by (cases v)
      (auto simp: encodeCookieValue_def new_JWT_def setIssuedAt_def setProtectedHeader_def
        Let_def)
  from assms(2) k have "attempt L True token s = Inr r"
    by (simp add: attempt_def)
  then have "decodeCookieValue L token ([] @ s # S) True =
      (map (attempt_call True token) ([] @ [s]), Inr (JObj (payload r)))"
    by (intro decode_first_success) simp_all
  with assms(3) b have "decodeCookieValue L token (s # S) True =
      ([Decrypt token (TextEncoder_encode s)],
       Inr (JObj (AList.update ''iat'' (JNum (now div 1000)) V)))"
    by (simp add: attempt_call_def)
  with v k b show ?thesis by (simp add: update_other_keys)
qed

text \<open>
  The hypotheses of C1 hold for the codebook instance, encrypting \<^verbatim>\<open>{uid: 42}\<close> with
  \<^verbatim>\<open>s1\<close>.
\<close>

theorem roundtrip_adds_iat_witness:
  "encodeCookieValue demo_jose 1000000 (JObj uid_claims) [''s1''] True =
     ([Encrypt \<lparr>b_payload = issued_claims, b_protectedHeader = Some protected_header\<rparr>
         (TextEncoder_encode ''s1'')],
      Inr encrypted_token) \<and>
   jwtDecrypt demo_jose encrypted_token (TextEncoder_encode ''s1'') =
     Inr \<lparr>payload = issued_claims, protectedHeader = protected_header\<rparr> \<and>
   decodeCookieValue demo_jose encrypted_token [''s1''] True =
     ([Decrypt encrypted_token (TextEncoder_encode ''s1'')], Inr (JObj issued_claims))"
proof -
  have d: "jwtDecrypt demo_jose encrypted_token (TextEncoder_encode ''s1'') =
      Inr \<lparr>payload = issued_claims, protectedHeader = protected_header\<rparr>"
    by (simp add: demo_defs)
  from roundtrip_adds_iat [OF demo_encode_encrypted d]
  have "decodeCookieValue demo_jose encrypted_token [''s1''] True =
      ([Decrypt encrypted_token (TextEncoder_encode ''s1'')],
       Inr (JObj (AList.update ''iat'' (JNum (1000000 div 1000)) uid_claims)))"
    by simp
  then have "decodeCookieValue demo_jose encrypted_token [''s1''] True =
      ([Decrypt encrypted_token (TextEncoder_encode ''s1'')], Inr (JObj issued_claims))"
    by (simp add: uid_claims_def issued_claims_def)
  with demo_encode_encrypted d show ?thesis by simp
qed

text \<open>
  C1 as stated fails: \<^verbatim>\<open>{uid: 42}\<close> encoded at time 1000000 ms with the secrets \<^verbatim>\<open>["s1"]\<close>
  in encrypt mode decodes to \<^verbatim>\<open>{uid: 42, iat: 1000}\<close>, which is not the value encoded.
\<close>

theorem roundtrip_counterexample:
  "snd (encodeCookieValue demo_jose 1000000 (JObj [(''uid'', JNum 42)]) [''s1''] True) =
     Inr encrypted_token \<and>
   snd (decodeCookieValue demo_jose encrypted_token [''s1''] True) =
     Inr (JObj [(''uid'', JNum 42), (''iat'', JNum 1000)]) \<and>
   snd (decodeCookieValue demo_jose encrypted_token [''s1''] True) \<noteq>
     Inr (JObj [(''uid'', JNum 42)])"
  by (simp add: encodeCookieValue_def new_JWT_def setIssuedAt_def setProtectedHeader_def Let_def
      decodeCookieValue_def demo_defs)

section \<open>The fallback to the unsecured decoder\<close>

text \<open>
  C2 at a concrete input: the unsecured token of \<^verbatim>\<open>{uid: 42, iat: 1000}\<close> presented to
  \<^verbatim>\<open>decodeCookieValue\<close> with the secrets \<^verbatim>\<open>["s1"]\<close> in sign mode. The attempt with \<^verbatim>\<open>s1\<close>
  throws and is dropped, the unsecured decoder reads the payload \<^verbatim>\<open>{uid: 42, iat: 1000}\<close>,
  and what is returned is not that payload but the whole result object of
  \<^verbatim>\<open>UnsecuredJWT.decode\<close>, with its \<^verbatim>\<open>payload\<close> and \<^verbatim>\<open>header\<close> properties. The two secured
  branches return the \<^verbatim>\<open>payload\<close> property of their result.
\<close>

theorem fallback_returns_result_object:
  "decodeCookieValue demo_jose unsecured_token [''s1''] False =
     ([Verify unsecured_token (TextEncoder_encode ''s1''), Decode unsecured_token],
      Inr (JObj [(''payload'', JObj [(''uid'', JNum 42), (''iat'', JNum 1000)]),
                 (''header'', JObj [(''alg'', JStr ''none'')])])) \<and>
   map_sum id unsecured_payload (UnsecuredJWT_decode demo_jose unsecured_token) =
     Inr [(''uid'', JNum 42), (''iat'', JNum 1000)] \<and>
   snd (decodeCookieValue demo_jose unsecured_token [''s1''] False) \<noteq>
     Inr (JObj [(''uid'', JNum 42), (''iat'', JNum 1000)])"
  by (simp add: decodeCookieValue_def result_object_def demo_defs)

section \<open>The order of the secrets\<close>

text \<open>
  C3: for every token and every secret list, if the attempts with the secrets \<open>xs\<close> at the
  front of the list all throw and the attempt with the next secret \<open>s\<close> succeeds, then
  \<^verbatim>\<open>decodeCookieValue\<close> has called the codec for \<open>xs\<close> in list order and then for \<open>s\<close>, for
  no later secret and not for the unsecured decoder, has dropped the errors, and returns the
  payload read with \<open>s\<close>. So a token made with the secrets \<^verbatim>\<open>[old]\<close> in sign mode, by a codec
  whose \<^verbatim>\<open>jwtVerify\<close> accepts what it signed, decodes without error under \<^verbatim>\<open>[new, old]\<close>; when
  \<^verbatim>\<open>new\<close> does not verify it, the result is the payload that was signed.
\<close>

theorem secrets_tried_in_order:
  "((\<forall>x\<in>set xs. isl (attempt L d v x)) \<longrightarrow> attempt L d v s = Inr r \<longrightarrow>
      decodeCookieValue L v (xs @ s # ys) d =
        (map (attempt_call d v) (xs @ [s]), Inr (JObj (payload r)))) \<and>
   (verify_inverts_sign L \<longrightarrow>
    snd (encodeCookieValue L now val [old] False) = Inr token \<longrightarrow>
      \<not> isl (snd (decodeCookieValue L token [new, old] False)) \<and>
      (isl (attempt L False token new) \<longrightarrow>
         (\<exists>V. val = JObj V \<and>
            decodeCookieValue L token [new, old] False =
              ([attempt_call False token new, attempt_call False token old],
               Inr (JObj (AList.update ''iat'' (JNum (now div 1000)) V))))))"
proof (intro conjI impI)
  assume "\<forall>x\<in>set xs. isl (attempt L d v x)" and "attempt L d v s = Inr r"
  then show "decodeCookieValue L v (xs @ s # ys) d =
      (map (attempt_call d v) (xs @ [s]), Inr (JObj (payload r)))"
    by (rule decode_first_success)
next
  assume c: "verify_inverts_sign L"
    and e: "snd (encodeCookieValue L now val [old] False) = Inr token"
  from encode_secured_success [OF e] obtain V where
    v: "val = JObj V" and
    tok: "SignJWT_sign L
             \<lparr>b_payload = AList.update ''iat'' (JNum (now div 1000)) V,
              b_protectedHeader = Some protected_header\<rparr>
             (TextEncoder_encode old) = Inr token"
    by auto
  from verify_own_token [OF c tok] obtain r where
    r: "attempt L False token old = Inr r" and
    p: "payload r = AList.update ''iat'' (JNum (now div 1000)) V"
    by (auto simp: attempt_def)
  have fallthrough: "decodeCookieValue L token [new, old] False =
      ([attempt_call False token new, attempt_call False token old],
       Inr (JObj (AList.update ''iat'' (JNum (now div 1000)) V)))"
    if "isl (attempt L False token new)"
  proof -
    have "decodeCookieValue L token ([new] @ old # []) False =
        (map (attempt_call False token) ([new] @ [old]), Inr (JObj (payload r)))"
      by (rule decode_first_success) (simp_all add: that r)
    with p show ?thesis by simp
  qed
  show "\<not> isl (snd (decodeCookieValue L token [new, old] False))"
  proof (cases "attempt L False token new")
    case (Inl e')
    then show ?thesis by (simp add: fallthrough)
  next
    case (Inr r')
    have "decodeCookieValue L token ([] @ new # [old]) False =
        (map (attempt_call False token) ([] @ [new]), Inr (JObj (payload r')))"
      by (rule decode_first_success) (simp_all add: Inr)
    then show ?thesis by simp
  qed
  show "\<exists>V. val = JObj V \<and>
      decodeCookieValue L token [new, old] False =
        ([attempt_call False token new, attempt_call False token old],
         Inr (JObj (AList.update ''iat'' (JNum (now div 1000)) V)))"
    if "isl (attempt L False token new)"
    using fallthrough [OF that] v by simp
qed

text \<open>
  The hypotheses of C3 hold for the codebook instance: a token signed with \<^verbatim>\<open>s1\<close>, decoded
  under \<^verbatim>\<open>["s2", "s1", "s0"]\<close> and under the rotated list \<^verbatim>\<open>["s2", "s1"]\<close>.
\<close>

theorem secrets_tried_in_order_witness:
  "isl (attempt demo_jose False signed_token ''s2'') \<and>
   attempt demo_jose False signed_token ''s1'' =
     Inr \<lparr>payload = issued_claims, protectedHeader = protected_header\<rparr> \<and>
   decodeCookieValue demo_jose signed_token [''s2'', ''s1'', ''s0''] False =
     ([Verify signed_token (TextEncoder_encode ''s2''),
       Verify signed_token (TextEncoder_encode ''s1'')],
      Inr (JObj issued_claims)) \<and>
   verify_inverts_sign demo_jose \<and>
   snd (encodeCookieValue demo_jose 1000000 (JObj uid_claims) [''s1''] False) = Inr signed_token \<and>
   decodeCookieValue demo_jose signed_token [''s2'', ''s1''] False =
     ([Verify signed_token (TextEncoder_encode ''s2''),
       Verify signed_token (TextEncoder_encode ''s1'')],
      Inr (JObj issued_claims))"
proof -
  have f: "\<forall>x\<in>set [''s2'']. isl (attempt demo_jose False signed_token x)"
    by (simp add: demo_attempt_s2)
  have e: "snd (encodeCookieValue demo_jose 1000000 (JObj uid_claims) [''s1''] False) =
      Inr signed_token"
    by (simp add: demo_encode_signed)
  note t = secrets_tried_in_order [of "[''s2'']" demo_jose False signed_token "''s1''"
      "\<lparr>payload = issued_claims, protectedHeader = protected_header\<rparr>" "[''s0'']"
      1000000 "JObj uid_claims" "''s1''" signed_token "''s2''"]
  from t f demo_attempt_s1 have a:
    "decodeCookieValue demo_jose signed_token [''s2'', ''s1'', ''s0''] False =
     ([Verify signed_token (TextEncoder_encode ''s2''),
       Verify signed_token (TextEncoder_encode ''s1'')],
      Inr (JObj issued_claims))"
    by (simp add: attempt_call_def)
  from t demo_verify_inverts_sign e f have b:
    "decodeCookieValue demo_jose signed_token [''s2'', ''s1''] False =
     ([Verify signed_token (TextEncoder_encode ''s2''),
       Verify signed_token (TextEncoder_encode ''s1'')],
      Inr (JObj issued_claims))"
    by (simp add: attempt_call_def uid_claims_def issued_claims_def)
  from f demo_attempt_s1 a demo_verify_inverts_sign e b show ?thesis by simp
qed

section \<open>Round trip without secrets\<close>

text \<open>
  C4, as the code has it: for every value and mode, if the unsecured decoder reads back
  what the unsecured encoder wrote and \<^verbatim>\<open>encodeCookieValue\<close> with the empty secret list
  returns a token, then the value is a claims object \<open>V\<close>, \<^verbatim>\<open>decodeCookieValue\<close> of that
  token with the empty secret list makes one call, to the unsecured decoder, and does not
  fail, and the claims the unsecured decoder reads from the token are \<open>V\<close> with its
  \<^verbatim>\<open>iat\<close> claim set to the time of encoding in seconds: \<open>V\<close> on every claim other than
  \<^verbatim>\<open>iat\<close>.
\<close>

theorem unsecured_roundtrip_adds_iat:
  assumes "decode_inverts_encode L"
    and "snd (encodeCookieValue L now v [] m) = Inr token"
  shows "\<exists>V r. v = JObj V \<and>
           UnsecuredJWT_decode L token = Inr r \<and>
           unsecured_payload r = AList.update ''iat'' (JNum (now div 1000)) V \<and>
           (\<forall>k. k \<noteq> ''iat'' \<longrightarrow> map_of (unsecured_payload r) k = map_of V k) \<and>
           fst (decodeCookieValue L token [] m) = [Decode token] \<and>
           \<not> isl (snd (decodeCookieValue L token [] m))"
proof -
  from encode_unsecured_success [OF assms(2)] obtain V where
    v: "v = JObj V" and
    tok: "UnsecuredJWT_encode L
             \<lparr>b_payload = AList.update ''iat'' (JNum (now div 1000)) V,
              b_protectedHeader = None\<rparr> = Inr token"
    by auto
  from decode_own_token [OF assms(1) tok] obtain r where
    r: "UnsecuredJWT_decode L token = Inr r" and
    p: "unsecured_payload r = AList.update ''iat'' (JNum (now div 1000)) V"
    by auto
  from r have "fst (decodeCookieValue L token [] m) = [Decode token]"
    and "\<not> isl (snd (decodeCookieValue L token [] m))"
    by (simp_all add: decodeCookieValue_def)
  with v r p show ?thesis by (simp add: update_other_keys)
qed

text \<open>The hypotheses of C4 hold for the codebook instance and the value \<^verbatim>\<open>{uid: 42}\<close>.\<close>

theorem unsecured_roundtrip_adds_iat_witness:
  "decode_inverts_encode demo_jose \<and>
   snd (encodeCookieValue demo_jose 1000000 (JObj uid_claims) [] True) = Inr unsecured_token \<and>
   map_sum id unsecured_payload (UnsecuredJWT_decode demo_jose unsecured_token) =
     Inr issued_claims \<and>
   fst (decodeCookieValue demo_jose unsecured_token [] True) = [Decode unsecured_token] \<and>
   \<not> isl (snd (decodeCookieValue demo_jose unsecured_token [] True))"
proof -
  have e: "snd (encodeCookieValue demo_jose 1000000 (JObj uid_claims) [] True) =
      Inr unsecured_token"
    by (simp add: encodeCookieValue_def new_JWT_def setIssuedAt_def Let_def demo_defs)
  from unsecured_roundtrip_adds_iat [OF demo_decode_inverts_encode e]
  obtain r where "UnsecuredJWT_decode demo_jose unsecured_token = Inr r"
    and "unsecured_payload r = AList.update ''iat'' (JNum (1000000 div 1000)) uid_claims"
    and "fst (decodeCookieValue demo_jose unsecured_token [] True) = [Decode unsecured_token]"
    and "\<not> isl (snd (decodeCookieValue demo_jose unsecured_token [] True))"
    by auto
  with e demo_decode_inverts_encode show ?thesis
    by (simp add: uid_claims_def issued_claims_def)
qed

text \<open>
  C4 as stated fails: \<^verbatim>\<open>{uid: 42}\<close> encoded at time 1000000 ms with no secret gives a token
  whose payload is \<^verbatim>\<open>{uid: 42, iat: 1000}\<close>, and decoding it with no secret does not return
  \<^verbatim>\<open>{uid: 42}\<close>.
\<close>

theorem unsecured_roundtrip_counterexample:
  "snd (encodeCookieValue demo_jose 1000000 (JObj [(''uid'', JNum 42)]) [] False) =
     Inr unsecured_token \<and>
   map_sum id unsecured_payload (UnsecuredJWT_decode demo_jose unsecured_token) =
     Inr [(''uid'', JNum 42), (''iat'', JNum 1000)] \<and>
   snd (decodeCookieValue demo_jose unsecured_token [] False) \<noteq>
     Inr (JObj [(''uid'', JNum 42)])"
  by (simp add: encodeCookieValue_def new_JWT_def setIssuedAt_def Let_def
      decodeCookieValue_def result_object_def demo_defs)

section \<open>The empty value\<close>

text \<open>
  C5: for every descriptor, whatever its secrets and its mode, \<^verbatim>\<open>serialize\<close> of the empty
  string hands the cookie serializer the raw value \<^verbatim>\<open>""\<close> and makes no call to the token
  codec; \<^verbatim>\<open>parse\<close> of a header in which the raw value under the descriptor's name is \<^verbatim>\<open>""\<close>
  returns \<^verbatim>\<open>""\<close> and makes no call to the token codec.
\<close>

theorem empty_value_short_circuit:
  "serialize L C now c (JStr []) serializeOptions =
     ([], cookie_serialize C (name c) [] (spread (cap_options c) serializeOptions)) \<and>
   (h \<noteq> [] \<longrightarrow>
    cookie_parse C h (spread (cap_options c) parseOptions) (name c) = Some [] \<longrightarrow>
      parse L C c (Some h) parseOptions = ([], Inr (JStr [])))"
  by (simp add: serialize_def parse_def name_def name_in_def Let_def)

text \<open>
  The hypotheses of C5 hold for the header \<^verbatim>\<open>session=\<close> and a signed descriptor named
  \<^verbatim>\<open>session\<close>.
\<close>

theorem empty_value_short_circuit_witness:
  "serialize demo_jose demo_cookie 1000000
       (fst (createCookieFactory ''session'' session_options [])) (JStr []) no_attrs
     = ([], Inr ''session=; Path=/'') \<and>
   ''session='' \<noteq> [] \<and>
   cookie_parse demo_cookie ''session=''
       (spread (cap_options (fst (createCookieFactory ''session'' session_options []))) no_attrs)
       (name (fst (createCookieFactory ''session'' session_options []))) = Some [] \<and>
   parse demo_jose demo_cookie (fst (createCookieFactory ''session'' session_options []))
       (Some ''session='') no_attrs = ([], Inr (JStr []))"
  using empty_value_short_circuit [of demo_jose demo_cookie 1000000
      "fst (createCookieFactory ''session'' session_options [])" no_attrs "''session=''" no_attrs]
  by (simp add: demo_cookie_def demo_cookie_parse_def demo_cookie_serialize_def name_def
      createCookieFactory_def Let_def session_options_def spread_def override_def
      default_attrs_def no_attrs_def value_of_def)

section \<open>An absent cookie\<close>

text \<open>
  What holds of \<^verbatim>\<open>parse\<close>: it returns \<^verbatim>\<open>null\<close> and calls nothing when the header is \<^verbatim>\<open>null\<close>
  or empty, and when the descriptor's name is neither a key of the parsed header nor the
  name of a member of \<^verbatim>\<open>Object.prototype\<close>.
\<close>

lemma parse_null_header: "parse L C c None parseOptions = ([], Inr JNull)"
  by (simp add: parse_def)

lemma parse_empty_header: "parse L C c (Some []) parseOptions = ([], Inr JNull)"
  by (simp add: parse_def)

lemma parse_name_not_in_header:
  "cookie_parse C h (spread (cap_options c) parseOptions) (name c) = None \<Longrightarrow>
   name c \<notin> set Object_prototype \<Longrightarrow>
   parse L C c (Some h) parseOptions = ([], Inr JNull)"
  by (simp add: parse_def name_def name_in_def Let_def)

text \<open>
  C6 at a concrete input: a descriptor named \<^verbatim>\<open>toString\<close> with the secrets \<^verbatim>\<open>["s1"]\<close> and
  the header \<^verbatim>\<open>other=1\<close>. The name is not a key of the parsed header, yet
  \<^verbatim>\<open>"toString" in cookies\<close> holds through the prototype chain, the inherited function goes
  to \<^verbatim>\<open>decodeCookieValue\<close>, and \<^verbatim>\<open>parse\<close> throws where the claim says it returns \<^verbatim>\<open>null\<close>.
\<close>

theorem parse_inherited_name_throws:
  "cookie_parse demo_cookie ''other=1''
       (spread (cap_options (fst (createCookieFactory ''toString'' session_options []))) no_attrs)
       (name (fst (createCookieFactory ''toString'' session_options []))) = None \<and>
   parse demo_jose demo_cookie (fst (createCookieFactory ''toString'' session_options []))
       (Some ''other=1'') no_attrs =
     ([VerifyInherited (TextEncoder_encode ''s1''), DecodeInherited],
      Inl (Thrown ''JWTInvalid'')) \<and>
   parse demo_jose demo_cookie (fst (createCookieFactory ''toString'' session_options []))
       (Some ''other=1'') no_attrs \<noteq> ([], Inr JNull)"
  by (simp add: parse_def name_def name_in_def Object_prototype_def Let_def
      decodeCookieValue_inherited_def demo_cookie_def demo_cookie_parse_def
      createCookieFactory_def session_options_def value_of_def)

section \<open>The expires property\<close>

lemma factory_maxAge:
  "value_of (opt_maxAge (cap_options (fst (createCookieFactory n cookieOptions warned)))) =
     value_of (opt_maxAge (attrs cookieOptions))"
  by (simp add: createCookieFactory_def Let_def spread_def override_def default_attrs_def
      no_attrs_def value_of_def split: property.splits)

lemma factory_expires:
  "value_of (opt_expires (cap_options (fst (createCookieFactory n cookieOptions warned)))) =
     value_of (opt_expires (attrs cookieOptions))"
  by (simp add: createCookieFactory_def Let_def spread_def override_def default_attrs_def
      no_attrs_def value_of_def split: property.splits)

text \<open>
  C7, as the code has it: for every descriptor made by the factory, if a whole number
  \<^verbatim>\<open>maxAge\<close> is configured then a read of \<^verbatim>\<open>expires\<close> at a time \<open>now\<close> is the Date
  \<open>now + maxAge * 1000\<close>, whatever \<^verbatim>\<open>expires\<close> option was given, as long as that time lies
  within 8.64e15 ms of the epoch, and such a read differs from the read at any other time;
  beyond that range, and for a \<^verbatim>\<open>maxAge\<close> that is \<^verbatim>\<open>NaN\<close> or infinite, every read is an
  Invalid Date. If no \<^verbatim>\<open>maxAge\<close> is configured, every read is the configured \<^verbatim>\<open>expires\<close>
  option (or \<^verbatim>\<open>undefined\<close>), the same at all times.
\<close>

theorem expires_derivation:
  "(value_of (opt_maxAge (attrs cookieOptions)) = Some (Whole maxAge) \<longrightarrow>
      (\<bar>now + maxAge * 1000\<bar> \<le> 8640000000000000 \<longrightarrow>
         expires now (fst (createCookieFactory n cookieOptions warned)) =
           Some (ValidDate (now + maxAge * 1000)) \<and>
         (now \<noteq> now' \<longrightarrow>
            expires now (fst (createCookieFactory n cookieOptions warned)) \<noteq>
            expires now' (fst (createCookieFactory n cookieOptions warned)))) \<and>
      (8640000000000000 < \<bar>now + maxAge * 1000\<bar> \<longrightarrow>
         expires now (fst (createCookieFactory n cookieOptions warned)) = Some InvalidDate)) \<and>
   (value_of (opt_maxAge (attrs cookieOptions)) = Some other \<longrightarrow>
    (\<forall>m. other \<noteq> Whole m) \<longrightarrow>
      expires now (fst (createCookieFactory n cookieOptions warned)) = Some InvalidDate) \<and>
   (value_of (opt_maxAge (attrs cookieOptions)) = None \<longrightarrow>
      expires now (fst (createCookieFactory n cookieOptions warned)) =
        value_of (opt_expires (attrs cookieOptions)) \<and>
      expires now' (fst (createCookieFactory n cookieOptions warned)) =
        expires now (fst (createCookieFactory n cookieOptions warned)))"
proof (intro conjI impI)
  assume "value_of (opt_maxAge (attrs cookieOptions)) = Some (Whole maxAge)"
    and "\<bar>now + maxAge * 1000\<bar> \<le> 8640000000000000"
  then show "expires now (fst (createCookieFactory n cookieOptions warned)) =
      Some (ValidDate (now + maxAge * 1000))"
    by (simp add: expires_def factory_maxAge)
next
  assume "value_of (opt_maxAge (attrs cookieOptions)) = Some (Whole maxAge)"
    and "\<bar>now + maxAge * 1000\<bar> \<le> 8640000000000000" and "now \<noteq> now'"
  then show "expires now (fst (createCookieFactory n cookieOptions warned)) \<noteq>
      expires now' (fst (createCookieFactory n cookieOptions warned))"
    by (simp add: expires_def factory_maxAge)
next
  assume "value_of (opt_maxAge (attrs cookieOptions)) = Some (Whole maxAge)"
    and "8640000000000000 < \<bar>now + maxAge * 1000\<bar>"
  then show "expires now (fst (createCookieFactory n cookieOptions warned)) = Some InvalidDate"
    by (simp add: expires_def factory_maxAge)
next
  assume "value_of (opt_maxAge (attrs cookieOptions)) = Some other"
    and "\<forall>m. other \<noteq> Whole m"
  then show "expires now (fst (createCookieFactory n cookieOptions warned)) = Some InvalidDate"
    by (cases other) (simp_all add: expires_def factory_maxAge)
next
  assume "value_of (opt_maxAge (attrs cookieOptions)) = None"
  then show "expires now (fst (createCookieFactory n cookieOptions warned)) =
      value_of (opt_expires (attrs cookieOptions))"
    and "expires now' (fst (createCookieFactory n cookieOptions warned)) =
      expires now (fst (createCookieFactory n cookieOptions warned))"
    by (simp_all add: expires_def factory_maxAge factory_expires)
qed

text \<open>
  Every hypothesis of C7 occurs: a descriptor with \<^verbatim>\<open>maxAge = 3600\<close> and a static
  \<^verbatim>\<open>expires\<close>, read one second apart; one with a \<^verbatim>\<open>maxAge\<close> that leaves the range of a
  Date; one with \<^verbatim>\<open>maxAge = NaN\<close>; and one with a static \<^verbatim>\<open>expires\<close> only.
\<close>

theorem expires_derivation_witness:
  "value_of (opt_maxAge (attrs rolling_options)) = Some (Whole 3600) \<and>
   \<bar>1000000 + 3600 * 1000\<bar> \<le> (8640000000000000::int) \<and>
   expires 1000000 (fst (createCookieFactory ''session'' rolling_options [])) =
     Some (ValidDate 4600000) \<and>
   (1000000::int) \<noteq> 1001000 \<and>
   expires 1000000 (fst (createCookieFactory ''session'' rolling_options [])) \<noteq>
   expires 1001000 (fst (createCookieFactory ''session'' rolling_options [])) \<and>
   value_of (opt_maxAge (attrs far_options)) = Some (Whole 8640000000000) \<and>
   (8640000000000000::int) < \<bar>1000000 + 8640000000000 * 1000\<bar> \<and>
   expires 1000000 (fst (createCookieFactory ''session'' far_options [])) = Some InvalidDate \<and>
   value_of (opt_maxAge (attrs nan_options)) = Some NaN \<and>
   expires 1000000 (fst (createCookieFactory ''session'' nan_options [])) = Some InvalidDate \<and>
   value_of (opt_maxAge (attrs fixed_options)) = None \<and>
   expires 1000000 (fst (createCookieFactory ''session'' fixed_options [])) =
     Some (ValidDate 5) \<and>
   expires 1001000 (fst (createCookieFactory ''session'' fixed_options [])) =
     Some (ValidDate 5)"
proof -
  have r: "value_of (opt_maxAge (attrs rolling_options)) = Some (Whole 3600)"
    and f: "value_of (opt_maxAge (attrs far_options)) = Some (Whole 8640000000000)"
    and q: "value_of (opt_maxAge (attrs nan_options)) = Some NaN"
    and x: "value_of (opt_maxAge (attrs fixed_options)) = None"
    and e: "value_of (opt_expires (attrs fixed_options)) = Some (ValidDate 5)"
    by (simp_all add: rolling_options_def far_options_def nan_options_def fixed_options_def
        no_attrs_def value_of_def)
  from expires_derivation [of rolling_options 3600 1000000 "''session''" "[]" 1001000 NaN] r
  have a: "expires 1000000 (fst (createCookieFactory ''session'' rolling_options [])) =
        Some (ValidDate 4600000)"
    and b: "expires 1000000 (fst (createCookieFactory ''session'' rolling_options [])) \<noteq>
        expires 1001000 (fst (createCookieFactory ''session'' rolling_options []))"
    by auto
  from expires_derivation [of far_options 8640000000000 1000000 "''session''" "[]" 1001000 NaN] f
  have c: "expires 1000000 (fst (createCookieFactory ''session'' far_options [])) =
        Some InvalidDate"
    by simp
  from expires_derivation [of nan_options 0 1000000 "''session''" "[]" 1001000 NaN] q
  have d: "expires 1000000 (fst (createCookieFactory ''session'' nan_options [])) =
        Some InvalidDate"
    by simp
  from expires_derivation [of fixed_options 0 1000000 "''session''" "[]" 1001000 NaN] x e
  have g: "expires 1000000 (fst (createCookieFactory ''session'' fixed_options [])) =
        Some (ValidDate 5)"
    and h: "expires 1001000 (fst (createCookieFactory ''session'' fixed_options [])) =
        Some (ValidDate 5)"
    by simp_all
  from r f q x a b c d g h show ?thesis by simp
qed

text \<open>
  C7 as stated fails: with \<^verbatim>\<open>maxAge = 8640000000000\<close> the reads of \<^verbatim>\<open>expires\<close> at the times
  1000000 ms and 1001000 ms are both an Invalid Date: neither is the time of the read plus
  \<^verbatim>\<open>maxAge\<close> seconds, and the two reads do not differ.
\<close>

theorem expires_counterexample:
  "value_of (opt_maxAge (attrs far_options)) = Some (Whole 8640000000000) \<and>
   expires 1000000 (fst (createCookieFactory ''session'' far_options [])) = Some InvalidDate \<and>
   expires 1000000 (fst (createCookieFactory ''session'' far_options [])) \<noteq>
     Some (ValidDate (1000000 + 8640000000000 * 1000)) \<and>
   expires 1001000 (fst (createCookieFactory ''session'' far_options [])) =
     expires 1000000 (fst (createCookieFactory ''session'' far_options []))"
proof -
  have "value_of (opt_maxAge (attrs far_options)) = Some (Whole 8640000000000)"
    by (simp add: far_options_def no_attrs_def value_of_def)
  then show ?thesis by (simp add: expires_def factory_maxAge)
qed

section \<open>Only the first secret encodes\<close>

text \<open>
  C8: for every value, mode and non-empty secret list, \<^verbatim>\<open>encodeCookieValue\<close> depends on the
  first secret only: two lists with the same head give the same calls to the token codec
  and the same result.
\<close>

theorem encode_uses_first_secret_only:
  "encodeCookieValue L now v (s0 # rest1) m = encodeCookieValue L now v (s0 # rest2) m"
  by (simp add: encodeCookieValue_def Let_def split: sum.splits)

section \<open>The name property\<close>

text \<open>
  C9, as the code has it: the \<^verbatim>\<open>name\<close> property of the descriptor returned by
  \<^verbatim>\<open>createCookieFactory()(name, options)\<close> is the name given at construction, whatever the
  options and at every read. Nothing checks the name: it is empty when an empty name was
  given.
\<close>

theorem name_is_construction_name:
  "name (fst (createCookieFactory n cookieOptions warned)) = n"
  by (simp add: createCookieFactory_def name_def Let_def)

text \<open>C9 as stated fails: a descriptor constructed with the empty name has the empty name.\<close>

theorem name_may_be_empty:
  "name (fst (createCookieFactory [] session_options [])) = []"
  by (simp add: createCookieFactory_def name_def Let_def)

section \<open>The type guard\<close>

text \<open>
  C10: for every name and every options object, \<^verbatim>\<open>isCookie\<close> holds of the descriptor that
  \<^verbatim>\<open>createCookieFactory()(name, options)\<close> returns.
\<close>

theorem created_cookie_isCookie:
  "isCookie (cookie_object now (fst (createCookieFactory n cookieOptions warned)))"
  by (simp add: isCookie_def cookie_object_def)

end
